theory Spec2Isabelle
  imports Main "HOL-Library.Word"
begin

section \<open>Data of the binding layer (pspdecrypt\_python.cpp)\<close>

text \<open>
  The file under verification is the pybind11 binding \<^verbatim>\<open>pspdecrypt_python.cpp\<close>. It
  converts Python \<^verbatim>\<open>bytes\<close> into C++ buffers, calls the routines of the decryption
  library, and turns their integer results into a returned byte string or a raised
  \<^verbatim>\<open>std::runtime_error\<close>. C's \<^verbatim>\<open>u32\<close> and \<^verbatim>\<open>int\<close> are both 32-bit
  patterns; an \<^verbatim>\<open>int\<close> is read with \<open>sint\<close>, a \<^verbatim>\<open>u32\<close> with \<open>unat\<close>.
\<close>

type_synonym u8 = "8 word"
type_synonym u32 = "32 word"
type_synonym cint = "32 word"
type_synonym bytes = "u8 list"

text \<open>
  One constructor for each message the binding throws. \<open>SubstrOutOfRange\<close> is the
  \<^verbatim>\<open>std::out_of_range\<close> that \<^verbatim>\<open>log_str.substr(1)\<close> throws on an empty string.
\<close>

datatype error =
    TooSmall
  | SecureIdLength
  | PrxDecryptionFailed
  | Ipl1Failed
  | Ipl2Failed
  | Ipl3Failed
  | NotCompressed
  | DecompressionFailed string
  | SubstrOutOfRange

text \<open>
  A call returns a value, raises one of the errors above, or leaves defined behaviour:
  \<open>Fault\<close> stands for a write past the end of a \<^verbatim>\<open>std::vector\<close> the binding
  allocated, a \<^verbatim>\<open>py::bytes(ptr, n)\<close> whose \<open>n\<close> is negative or larger than the
  vector behind \<open>ptr\<close>, or a format sniff on a buffer too short for it.
\<close>

datatype 'a outcome = Return 'a | Raise error | Fault

record prx_info =
  info_tag :: u32
  info_elf_size :: u32
  info_psp_size :: u32
  info_comp_size :: u32
  info_is_compressed :: bool

section \<open>The library behind the binding\<close>

text \<open>
  The routines the binding calls are declared in headers that are not part of the
  sources at hand (\<^verbatim>\<open>pspdecrypt_lib.h\<close>, \<^verbatim>\<open>PrxDecrypter.h\<close>, \<^verbatim>\<open>PsarDecrypter.h\<close>,
  \<^verbatim>\<open>kirk_engine.h\<close>), so they are parameters of the model. A routine that receives an
  output pointer returns, next to its C result, the bytes it stored from that pointer
  on. \<open>pspDecompress\<close> takes its input through a non-const pointer (the binding copies
  the input first "since pspDecompress may modify the input"), so it also returns the
  input buffer as it left it. \<open>pspLinearizeIPL2\<close> returns the final value of
  \<^verbatim>\<open>*start_addr\<close>, which the binding initialises with 0.
\<close>

record psplib =
  pspGetTagVal :: "bytes \<Rightarrow> u32"
  pspGetElfSize :: "bytes \<Rightarrow> u32"
  pspGetPspSize :: "bytes \<Rightarrow> u32"
  pspGetCompSize :: "bytes \<Rightarrow> u32"
  pspIsCompressed :: "bytes \<Rightarrow> cint"
  pspDecryptPRX :: "bytes \<Rightarrow> u32 \<Rightarrow> bytes option \<Rightarrow> bool \<Rightarrow> cint \<times> bytes"
  pspDecompress :: "bytes \<Rightarrow> u32 \<Rightarrow> u32 \<Rightarrow> cint \<times> bytes \<times> bytes \<times> string"
  pspDecryptIPL1 :: "bytes \<Rightarrow> u32 \<Rightarrow> cint \<times> bytes \<times> string"
  pspLinearizeIPL2 :: "bytes \<Rightarrow> u32 \<Rightarrow> cint \<times> bytes \<times> u32"
  pspDecryptIPL3 :: "bytes \<Rightarrow> u32 \<Rightarrow> cint \<times> bytes"

text \<open>
  Modelled from the spec: the macro \<^verbatim>\<open>PSP_HEADER_SIZE\<close> is defined in a header that
  is not among the sources. Its value is the one the binding's own error message and
  the API reference give ("Input data is too small (< 0x150 bytes)").
\<close>

definition PSP_HEADER_SIZE :: u32 where
  "PSP_HEADER_SIZE = 0x150"

section \<open>Process state and observable effects\<close>

text \<open>
  The two function-local \<^verbatim>\<open>static bool kirk_initialized\<close> flags are the only state
  the binding keeps between calls. \<open>events\<close> records, in order, every library call
  and every vector allocation; \<open>printed\<close> collects the lines given to \<^verbatim>\<open>py::print\<close>.
\<close>

datatype event =
    KirkInit
  | Alloc nat
  | GetTagVal bytes
  | GetElfSize bytes
  | GetPspSize bytes
  | GetCompSize bytes
  | IsCompressed bytes
  | DecryptPRX bytes u32 "bytes option" bool
  | Decompress bytes u32 u32
  | DecryptIPL1 bytes u32
  | LinearizeIPL2 bytes u32
  | DecryptIPL3 bytes u32

record world =
  prx_kirk_initialized :: bool
  ipl1_kirk_initialized :: bool
  events :: "event list"
  printed :: "string list"

definition emit :: "event list \<Rightarrow> world \<Rightarrow> world" where
  "emit es w = w\<lparr>events := events w @ es\<rparr>"

definition py_print :: "string \<Rightarrow> world \<Rightarrow> world" where
  "py_print line w = w\<lparr>printed := printed w @ [line]\<rparr>"

definition kirk_init :: "world \<Rightarrow> world" where
  "kirk_init w = emit [KirkInit] w"

section \<open>Buffers\<close>

text \<open>
  \<open>store cap written\<close> is a zero-filled \<^verbatim>\<open>std::vector<u8>(cap)\<close> after a routine
  stored \<open>written\<close> at its start; \<open>None\<close> when the routine went past the end.
\<close>

definition store :: "nat \<Rightarrow> bytes \<Rightarrow> bytes option" where
  "store cap written =
     (if length written \<le> cap then Some (written @ replicate (cap - length written) 0)
      else None)"

text \<open>\<^verbatim>\<open>py::bytes(buf.data(), n)\<close> for an \<^verbatim>\<open>int n\<close>.\<close>

definition py_bytes :: "bytes \<Rightarrow> cint \<Rightarrow> bytes option" where
  "py_bytes buf n =
     (if 0 \<le> sint n \<and> nat (sint n) \<le> length buf then Some (take (nat (sint n)) buf)
      else None)"

definition ret :: "bytes option \<Rightarrow> world \<Rightarrow> bytes outcome \<times> world" where
  "ret r w = (case r of None \<Rightarrow> (Fault, w) | Some bs \<Rightarrow> (Return bs, w))"

text \<open>\<^verbatim>\<open>s.substr(1)\<close>: throws when \<open>1 > s.size()\<close>.\<close>

definition substr1 :: "string \<Rightarrow> string option" where
  "substr1 s = (if s = [] then None else Some (tl s))"

text \<open>
  The format sniff gets a bare pointer and compares the bytes behind it with the magic
  markers (GZIP, KL4E, KL3E, 2RLZ), which are up to four bytes long; the binding's own
  guard at line 72 asks for \<^verbatim>\<open>output_size >= 4\<close> before it sniffs, and
  \<open>decompress\<close> (line 218) asks for nothing. On a buffer of fewer than four bytes the
  comparison is not confined to the buffer: \<open>None\<close>. This is certain for the empty
  vector, whose \<^verbatim>\<open>data()\<close> cannot be dereferenced at all; for one to three bytes it is
  the cautious reading.
\<close>

definition sniff :: "psplib \<Rightarrow> bytes \<Rightarrow> cint option" where
  "sniff L buf = (if length buf < 4 then None else Some (pspIsCompressed L buf))"

section \<open>The entry points\<close>

text \<open>\<^verbatim>\<open>u32 input_size = input_str.size();\<close> keeps the low 32 bits of the length.\<close>

definition size_u32 :: "bytes \<Rightarrow> u32" where
  "size_u32 data = of_nat (length data)"

subsection \<open>decrypt\_prx\<close>

text \<open>
  The \<^verbatim>\<open>py::object secure_id_obj\<close> is \<open>None\<close> or a byte string; the pointer handed
  to the library is null or points to a 16-byte copy.
\<close>

definition parse_secure_id :: "bytes option \<Rightarrow> error + bytes option" where
  "parse_secure_id secure_id_obj =
     (case secure_id_obj of
        None \<Rightarrow> Inr None
      | Some secure_id_str \<Rightarrow>
          if length secure_id_str \<noteq> 16 then Inl SecureIdLength
          else Inr (Some secure_id_str))"

text \<open>
  Lines 71 to 90: the decompression attempt on the decrypted buffer and the final
  \<^verbatim>\<open>py::bytes\<close>. The test \<^verbatim>\<open>decompressed_size == elf_size\<close> compares an \<^verbatim>\<open>int\<close>
  with a \<^verbatim>\<open>u32\<close>, which C does on the 32-bit patterns.
\<close>

definition prx_finish ::
  "psplib \<Rightarrow> bool \<Rightarrow> u32 \<Rightarrow> bytes \<Rightarrow> cint \<Rightarrow> world \<Rightarrow> bytes outcome \<times> world" where
  "prx_finish L verbose elf_size output_buffer output_size w =
     (if 4 \<le> sint output_size then
        (let w1 = emit [IsCompressed output_buffer] w
         in case sniff L output_buffer of
              None \<Rightarrow> (Fault, w1)
            | Some compressed \<Rightarrow>
            if compressed \<noteq> 0 then
              (let (decompressed_size, input_after, written, log_str) =
                      pspDecompress L output_buffer output_size elf_size;
                   w2 = emit [Alloc (unat elf_size),
                              Decompress output_buffer output_size elf_size] w1
               in case store (unat elf_size) written of
                    None \<Rightarrow> (Fault, w2)
                  | Some temp_buffer \<Rightarrow>
                      if decompressed_size = elf_size then
                        (if verbose then
                           (case substr1 log_str of
                              None \<Rightarrow> (Raise SubstrOutOfRange, w2)
                            | Some t \<Rightarrow>
                                ret (py_bytes temp_buffer decompressed_size)
                                  (py_print (''Decompression successful: '' @ t) w2))
                         else ret (py_bytes temp_buffer decompressed_size) w2)
                      else
                        (if verbose then
                           (case substr1 log_str of
                              None \<Rightarrow> (Raise SubstrOutOfRange, w2)
                            | Some t \<Rightarrow>
                                ret (py_bytes input_after output_size)
                                  (py_print (''Decompression failed: '' @ t) w2))
                         else ret (py_bytes input_after output_size) w2))
            else ret (py_bytes output_buffer output_size) w1)
      else ret (py_bytes output_buffer output_size) w)"

definition decrypt_prx ::
  "psplib \<Rightarrow> bytes \<Rightarrow> bytes option \<Rightarrow> bool \<Rightarrow> world \<Rightarrow> bytes outcome \<times> world" where
  "decrypt_prx L data secure_id_obj verbose w =
     (let w1 = (if prx_kirk_initialized w then w
                else (kirk_init w)\<lparr>prx_kirk_initialized := True\<rparr>);
          input_size = size_u32 data
      in if input_size < PSP_HEADER_SIZE then (Raise TooSmall, w1)
         else
           case parse_secure_id secure_id_obj of
             Inl e \<Rightarrow> (Raise e, w1)
           | Inr secure_id_ptr \<Rightarrow>
               let psp_size = pspGetPspSize L data;
                   elf_size = pspGetElfSize L data;
                   output_capacity = ((max psp_size elf_size + 15) div 16) * 16;
                   (output_size, written) =
                      pspDecryptPRX L data input_size secure_id_ptr verbose;
                   w2 = emit [GetPspSize data, GetElfSize data, Alloc (unat output_capacity),
                              DecryptPRX data input_size secure_id_ptr verbose] w1
               in case store (unat output_capacity) written of
                    None \<Rightarrow> (Fault, w2)
                  | Some output_buffer \<Rightarrow>
                      if sint output_size < 0 then (Raise PrxDecryptionFailed, w2)
                      else prx_finish L verbose elf_size output_buffer output_size w2)"

subsection \<open>get\_prx\_info\<close>

text \<open>
  Here the length is compared as \<^verbatim>\<open>size_t\<close>, without the cut to 32 bits. The sniff
  runs on an input of at least 0x150 bytes, so it stays inside the input.
\<close>

definition get_prx_info :: "psplib \<Rightarrow> bytes \<Rightarrow> world \<Rightarrow> prx_info outcome \<times> world" where
  "get_prx_info L data w =
     (if length data < unat PSP_HEADER_SIZE then (Raise TooSmall, w)
      else
        (Return \<lparr>info_tag = pspGetTagVal L data,
                 info_elf_size = pspGetElfSize L data,
                 info_psp_size = pspGetPspSize L data,
                 info_comp_size = pspGetCompSize L data,
                 info_is_compressed = (pspIsCompressed L data \<noteq> 0)\<rparr>,
         emit [GetTagVal data, GetElfSize data, GetPspSize data, GetCompSize data,
               IsCompressed data] w))"

subsection \<open>decrypt\_ipl1, linearize\_ipl2, decrypt\_ipl3\<close>

definition decrypt_ipl1 ::
  "psplib \<Rightarrow> bytes \<Rightarrow> bool \<Rightarrow> world \<Rightarrow> bytes outcome \<times> world" where
  "decrypt_ipl1 L data verbose w =
     (let w1 = (if ipl1_kirk_initialized w then w
                else (kirk_init w)\<lparr>ipl1_kirk_initialized := True\<rparr>);
          input_size = size_u32 data;
          (output_size, written, log_str) = pspDecryptIPL1 L data input_size;
          w2 = emit [Alloc (unat input_size), DecryptIPL1 data input_size] w1
      in case store (unat input_size) written of
           None \<Rightarrow> (Fault, w2)
         | Some output_buffer \<Rightarrow>
             if sint output_size \<le> 0 then (Raise Ipl1Failed, w2)
             else ret (py_bytes output_buffer output_size)
                    (if verbose \<and> log_str \<noteq> []
                     then py_print (''IPL1 decryption: '' @ tl log_str) w2 else w2))"

definition linearize_ipl2 ::
  "psplib \<Rightarrow> bytes \<Rightarrow> world \<Rightarrow> (bytes \<times> u32) outcome \<times> world" where
  "linearize_ipl2 L data w =
     (let input_size = size_u32 data;
          (output_size, written, start_addr) = pspLinearizeIPL2 L data input_size;
          w1 = emit [Alloc (unat input_size), LinearizeIPL2 data input_size] w
      in case store (unat input_size) written of
           None \<Rightarrow> (Fault, w1)
         | Some output_buffer \<Rightarrow>
             if sint output_size \<le> 0 then (Raise Ipl2Failed, w1)
             else (case py_bytes output_buffer output_size of
                     None \<Rightarrow> (Fault, w1)
                   | Some result \<Rightarrow> (Return (result, start_addr), w1)))"

definition decrypt_ipl3 :: "psplib \<Rightarrow> bytes \<Rightarrow> world \<Rightarrow> bytes outcome \<times> world" where
  "decrypt_ipl3 L data w =
     (let input_size = size_u32 data;
          (output_size, written) = pspDecryptIPL3 L data input_size;
          w1 = emit [Alloc (unat input_size), DecryptIPL3 data input_size] w
      in case store (unat input_size) written of
           None \<Rightarrow> (Fault, w1)
         | Some output_buffer \<Rightarrow>
             if sint output_size \<le> 0 then (Raise Ipl3Failed, w1)
             else ret (py_bytes output_buffer output_size) w1)"

subsection \<open>decompress\<close>

text \<open>
  The input is copied into a vector of \<open>input_size\<close> bytes, and the copy is sniffed with
  no test of its length (line 218). The default capacity \<^verbatim>\<open>input_size * 10\<close> is a
  \<^verbatim>\<open>u32\<close> product.
\<close>

definition decompress ::
  "psplib \<Rightarrow> bytes \<Rightarrow> cint \<Rightarrow> bool \<Rightarrow> world \<Rightarrow> bytes outcome \<times> world" where
  "decompress L data max_size verbose w =
     (let input_size = size_u32 data;
          input_buffer = take (unat input_size) data;
          w1 = emit [Alloc (unat input_size), IsCompressed input_buffer] w
      in case sniff L input_buffer of
           None \<Rightarrow> (Fault, w1)
         | Some compressed \<Rightarrow>
         if compressed = 0 then (Raise NotCompressed, w1)
         else
           let output_capacity = (if 0 < sint max_size then max_size else input_size * 10);
               (output_size, input_after, written, log_str) =
                  pspDecompress L input_buffer input_size output_capacity;
               w2 = emit [Alloc (unat output_capacity),
                          Decompress input_buffer input_size output_capacity] w1
           in case store (unat output_capacity) written of
                None \<Rightarrow> (Fault, w2)
              | Some output_buffer \<Rightarrow>
                  if sint output_size < 0 then (Raise (DecompressionFailed log_str), w2)
                  else ret (py_bytes output_buffer output_size)
                         (if verbose \<and> log_str \<noteq> []
                          then py_print (''Decompression: '' @ tl log_str) w2 else w2))"

section \<open>Sequences of top-level calls\<close>

text \<open>
  A Python program is a sequence of calls into the module; the world after one call is
  the world before the next. Exceptions do not undo the effects of the call that raised.
\<close>

datatype call =
    CallDecryptPrx bytes "bytes option" bool
  | CallGetPrxInfo bytes
  | CallDecryptIpl1 bytes bool
  | CallLinearizeIpl2 bytes
  | CallDecryptIpl3 bytes
  | CallDecompress bytes cint bool

fun step :: "psplib \<Rightarrow> call \<Rightarrow> world \<Rightarrow> world" where
  "step L (CallDecryptPrx data sid verbose) w = snd (decrypt_prx L data sid verbose w)"
| "step L (CallGetPrxInfo data) w = snd (get_prx_info L data w)"
| "step L (CallDecryptIpl1 data verbose) w = snd (decrypt_ipl1 L data verbose w)"
| "step L (CallLinearizeIpl2 data) w = snd (linearize_ipl2 L data w)"
| "step L (CallDecryptIpl3 data) w = snd (decrypt_ipl3 L data w)"
| "step L (CallDecompress data max_size verbose) w = snd (decompress L data max_size verbose w)"

fun run :: "psplib \<Rightarrow> call list \<Rightarrow> world \<Rightarrow> world" where
  "run L [] w = w"
| "run L (c # cs) w = run L cs (step L c w)"

text \<open>The world of a freshly imported module.\<close>

definition fresh :: world where
  "fresh = \<lparr>prx_kirk_initialized = False, ipl1_kirk_initialized = False,
            events = [], printed = []\<rparr>"

text \<open>How often \<^verbatim>\<open>kirk_init()\<close> ran.\<close>

definition loads :: "world \<Rightarrow> nat" where
  "loads w = length (filter (\<lambda>e. e = KirkInit) (events w))"

fun is_prx_call :: "call \<Rightarrow> bool" where
  "is_prx_call (CallDecryptPrx data sid verbose) = True"
| "is_prx_call c = False"

fun is_ipl1_call :: "call \<Rightarrow> bool" where
  "is_ipl1_call (CallDecryptIpl1 data verbose) = True"
| "is_ipl1_call c = False"

text \<open>What a call can change about the engine: the two guards and the number of loads.\<close>

definition engine :: "world \<Rightarrow> bool \<times> bool \<times> nat" where
  "engine w = (prx_kirk_initialized w, ipl1_kirk_initialized w, loads w)"

section \<open>A concrete library for running the binding\<close>

text \<open>
  Modelled from the spec: the format sniff of the codec dispatcher
  (\<^verbatim>\<open>pspIsCompressed\<close>, in \<^verbatim>\<open>pspdecrypt_lib\<close>, not among the sources) is "magic-based":
  the GZIP magic \<open>1F 8B\<close>, or one of the markers \<open>KL4E\<close>, \<open>KL3E\<close>, \<open>2RLZ\<close>.
\<close>

definition magic_sniff :: "bytes \<Rightarrow> cint" where
  "magic_sniff buf =
     (if take 2 buf = [0x1F, 0x8B] then 1
      else if take 4 buf = [0x32, 0x52, 0x4C, 0x5A] then 1
      else if take 4 buf = [0x4B, 0x4C, 0x34, 0x45] then 1
      else if take 4 buf = [0x4B, 0x4C, 0x33, 0x45] then 1
      else 0)"

text \<open>
  \<open>canned\<close> is a library whose header accessors and decoding routines give fixed
  answers: sizes \<open>psp\<close> and \<open>elf\<close>, the result \<open>dec\<close> of the PRX decryption, and the result
  \<open>dcm\<close> of the decoder (which leaves its input alone). The IPL routines report that
  they produced nothing. It serves to run the binding on concrete inputs.
\<close>

definition canned ::
  "u32 \<Rightarrow> u32 \<Rightarrow> cint \<times> bytes \<Rightarrow> cint \<times> bytes \<times> string \<Rightarrow> psplib" where
  "canned psp elf dec dcm =
     \<lparr>pspGetTagVal = (\<lambda>buf. 0),
      pspGetElfSize = (\<lambda>buf. elf),
      pspGetPspSize = (\<lambda>buf. psp),
      pspGetCompSize = (\<lambda>buf. 0),
      pspIsCompressed = magic_sniff,
      pspDecryptPRX = (\<lambda>inbuf size seed verbose. dec),
      pspDecompress = (\<lambda>inbuf insize outcapacity.
                         (fst dcm, inbuf, fst (snd dcm), snd (snd dcm))),
      pspDecryptIPL1 = (\<lambda>inbuf size. (0, [], [])),
      pspLinearizeIPL2 = (\<lambda>inbuf size. (0, [], 0)),
      pspDecryptIPL3 = (\<lambda>inbuf size. (0, [])) \<rparr>"

section \<open>Contract of the decoders\<close>

text \<open>
  Modelled from the spec: the decoders behind \<^verbatim>\<open>pspDecompress\<close> (GZIP, KL4E, KL3E, 2RLZ;
  in \<^verbatim>\<open>pspdecrypt_lib\<close>, not among the sources) are specified by "Each decoder must
  treat max\_output\_size as a hard cap -- writing past it is Error::OutputTooSmall, never
  silently truncated or overflowed". For a result of \<open>pspDecompress\<close> called with
  capacity \<open>outcapacity\<close>: the bytes stored fit into the capacity, and the returned
  \<^verbatim>\<open>int\<close> is negative (an error) or a length of at most the capacity.
\<close>

definition within_cap :: "u32 \<Rightarrow> cint \<times> bytes \<times> bytes \<times> string \<Rightarrow> bool" where
  "within_cap outcapacity r =
     (case r of (n, input_after, written, log_str) \<Rightarrow>
        length written \<le> unat outcapacity \<and> sint n \<le> uint outcapacity)"

section \<open>Auxiliary facts\<close>

lemma events_emit: "events (emit es w) = events w @ es"
  by (simp add: emit_def)

lemma events_py_print: "events (py_print l w) = events w"
  by (simp add: py_print_def)

lemma fst_ret: "fst (ret r w) = (case r of None \<Rightarrow> Fault | Some bs \<Rightarrow> Return bs)"
  by (simp add: ret_def split: option.splits)

lemma snd_ret: "snd (ret r w) = w"
  by (simp add: ret_def split: option.splits)

lemma length_store: "store cap written = Some buf \<Longrightarrow> length buf = cap"
  by (auto simp: store_def split: if_splits)

lemma uint_eq_sint: "0 \<le> sint (w :: 32 word) \<Longrightarrow> uint w = sint w"
  using sint_lt [of w] by (simp add: uint_sint take_bit_int_eq_self)

lemma unat_eq_sint: "0 \<le> sint (w :: 32 word) \<Longrightarrow> unat w = nat (sint w)"
  using uint_eq_sint [of w] unat_eq_nat_uint [of w] by simp

lemma size_u32_small: "length data < 336 \<Longrightarrow> size_u32 data < PSP_HEADER_SIZE"
  by (simp add: size_u32_def PSP_HEADER_SIZE_def word_less_nat_alt unat_of_nat)

lemma size_u32_exact: "length data < 2 ^ 32 \<Longrightarrow> unat (size_u32 data) = length data"
  by (simp add: size_u32_def unat_of_nat)

lemma sniff_Some: "4 \<le> length buf \<Longrightarrow> sniff L buf = Some (pspIsCompressed L buf)"
  by (simp add: sniff_def)

lemma replicate_2_4: "replicate 2 x = [x, x]" "replicate 4 x = [x, x, x, x]"
  by (simp_all add: numeral_eq_Suc)

text \<open>\<open>decrypt_prx\<close> past its three early exits.\<close>

lemma decrypt_prx_unfold:
  assumes "PSP_HEADER_SIZE \<le> size_u32 data"
    and "parse_secure_id secure_id_obj = Inr seed"
    and "pspDecryptPRX L data (size_u32 data) seed verbose = (output_size, written)"
    and "store (unat ((max (pspGetPspSize L data) (pspGetElfSize L data) + 15) div 16 * 16))
           written = Some output_buffer"
  shows "decrypt_prx L data secure_id_obj verbose w =
           (let w2 = emit [GetPspSize data, GetElfSize data,
                           Alloc (unat ((max (pspGetPspSize L data) (pspGetElfSize L data) + 15)
                                          div 16 * 16)),
                           DecryptPRX data (size_u32 data) seed verbose]
                       (if prx_kirk_initialized w then w
                        else (kirk_init w)\<lparr>prx_kirk_initialized := True\<rparr>)
            in if sint output_size < 0 then (Raise PrxDecryptionFailed, w2)
               else prx_finish L verbose (pspGetElfSize L data) output_buffer output_size w2)"
  using assms by (simp add: decrypt_prx_def Let_def not_less [symmetric])

lemma events_prx_finish:
  "\<exists>es. events (snd (prx_finish L verbose elf_size buf n w)) = events w @ es"
  by (auto simp: prx_finish_def Let_def snd_ret events_emit events_py_print
      split: prod.splits option.splits)

lemma prx_finish_not_failed:
  "fst (prx_finish L verbose elf_size buf n w) \<noteq> Raise PrxDecryptionFailed"
  by (auto simp: prx_finish_def Let_def fst_ret split: prod.splits option.splits)

text \<open>
  The decompression attempt, for a decoder that left its input alone and, when
  \<open>verbose\<close> is set, gave a log text.
\<close>

lemma prx_finish_decompressing:
  assumes big: "4 \<le> sint n" and inb: "nat (sint n) \<le> length buf"
    and sniff: "pspIsCompressed L buf \<noteq> 0"
    and dcm: "pspDecompress L buf n elf_size = (m, buf, written2, log_str)"
    and fit2: "store (unat elf_size) written2 = Some temp"
    and log: "verbose \<longrightarrow> log_str \<noteq> []"
  shows "fst (prx_finish L verbose elf_size buf n w) =
           (if m = elf_size then (if 0 \<le> sint m then Return temp else Fault)
            else Return (take (nat (sint n)) buf))"
    and "events (snd (prx_finish L verbose elf_size buf n w)) =
           events w @ [IsCompressed buf, Alloc (unat elf_size), Decompress buf n elf_size]"
proof -
  from big inb have "4 \<le> length buf" by simp
  then have sn: "sniff L buf = Some (pspIsCompressed L buf)"
    by (rule sniff_Some)
  have len: "length temp = unat elf_size"
    using fit2 by (rule length_store)
  have whole: "m = elf_size \<Longrightarrow> 0 \<le> sint m \<Longrightarrow> py_bytes temp m = Some temp"
    using len unat_eq_sint [of m] by (simp add: py_bytes_def)
  have neg: "m = elf_size \<Longrightarrow> \<not> 0 \<le> sint m \<Longrightarrow> py_bytes temp m = None"
    by (simp add: py_bytes_def)
  have part: "py_bytes buf n = Some (take (nat (sint n)) buf)"
    using big inb by (simp add: py_bytes_def)
  show "fst (prx_finish L verbose elf_size buf n w) =
           (if m = elf_size then (if 0 \<le> sint m then Return temp else Fault)
            else Return (take (nat (sint n)) buf))"
    using big sniff dcm fit2 log whole neg part
    by (auto simp: prx_finish_def Let_def fst_ret substr1_def sn)
  show "events (snd (prx_finish L verbose elf_size buf n w)) =
           events w @ [IsCompressed buf, Alloc (unat elf_size), Decompress buf n elf_size]"
    using big sniff dcm fit2 log
    by (auto simp: prx_finish_def Let_def snd_ret substr1_def events_emit events_py_print sn)
qed

lemma prx_finish_verbose:
  assumes "\<forall>inbuf n cap. snd (snd (snd (pspDecompress L inbuf n cap))) \<noteq> []"
  shows "fst (prx_finish L True elf_size buf n w) = fst (prx_finish L False elf_size buf n w')"
proof (cases "4 \<le> sint n \<and> sniff L buf \<noteq> None \<and> sniff L buf \<noteq> Some 0")
  case False
  then show ?thesis by (auto simp: prx_finish_def Let_def fst_ret split: option.splits)
next
  case True
  obtain m input_after written log_str where
    r: "pspDecompress L buf n elf_size = (m, input_after, written, log_str)"
    by (metis prod_cases4)
  with assms have "log_str \<noteq> []"
    by (metis snd_conv)
  with True r show ?thesis
    by (auto simp: prx_finish_def Let_def fst_ret substr1_def split: option.splits)
qed

section \<open>Output bound of decompress\<close>

text \<open>
  C1. For a compressed input (which carries at least its four magic bytes), a positive
  \<open>max_size\<close>, and a decoder that keeps to the capacity it is given (\<open>within_cap\<close>),
  \<open>decompress\<close> returns at most \<open>max_size\<close> bytes or raises ("Input data is not
  compressed" or "Decompression failed: ..."); the output vector of \<open>max_size\<close> bytes is
  never written or read past its end (no \<open>Fault\<close>).
\<close>

theorem decompress_bounded_by_max_size:
  assumes pos: "0 < sint max_size"
    and long: "4 \<le> length (take (unat (size_u32 data)) data)"
    and cap: "within_cap max_size
                (pspDecompress L (take (unat (size_u32 data)) data) (size_u32 data) max_size)"
  shows "case fst (decompress L data max_size verbose w) of
           Return out \<Rightarrow> length out \<le> nat (sint max_size)
         | Raise e \<Rightarrow> e = NotCompressed \<or> (\<exists>log_str. e = DecompressionFailed log_str)
         | Fault \<Rightarrow> False"
proof -
  obtain n input_after written log_str where
    r: "pspDecompress L (take (unat (size_u32 data)) data) (size_u32 data) max_size
          = (n, input_after, written, log_str)"
    by (metis prod_cases4)
  from cap r have fit: "length written \<le> unat max_size" and le: "sint n \<le> uint max_size"
    by (simp_all add: within_cap_def)
  from pos have same: "uint max_size = sint max_size"
    by (simp add: uint_eq_sint)
  from pos have cap_nat: "unat max_size = nat (sint max_size)"
    by (simp add: unat_eq_sint)
  note sn = sniff_Some [OF long, of L]
  show ?thesis
  proof (cases "pspIsCompressed L (take (unat (size_u32 data)) data) = 0")
    case True
    then show ?thesis by (simp add: decompress_def Let_def sn)
  next
    case False
    from fit obtain buf where buf: "store (unat max_size) written = Some buf"
      by (simp add: store_def)
    then have len: "length buf = nat (sint max_size)"
      using length_store cap_nat by simp
    show ?thesis
    proof (cases "sint n < 0")
      case True
      with False r buf pos show ?thesis by (simp add: decompress_def Let_def sn)
    next
      case nonneg: False
      with le same len have "py_bytes buf n = Some (take (nat (sint n)) buf)"
        by (simp add: py_bytes_def)
      with False r buf pos nonneg le same len show ?thesis
        by (simp add: decompress_def Let_def ret_def sn)
    qed
  qed
qed

theorem decompress_bounded_by_max_size_witness:
  "fst (decompress (canned 0 0 (0, []) (3, [1, 2, 3], '',gzip'')) [0x1F, 0x8B, 8, 0] 16
          False fresh)
     = Return [1, 2, 3] \<and> length [1, 2, 3 :: u8] \<le> nat (sint (16 :: cint))"
proof -
  let ?L = "canned 0 0 (0, []) (3, [1, 2, 3], '',gzip'')"
  let ?d = "[0x1F, 0x8B, 8, 0 :: u8]"
  have pos: "0 < sint (16 :: cint)" by simp
  have long: "4 \<le> length (take (unat (size_u32 ?d)) ?d)"
    by (simp add: size_u32_def)
  have cap: "within_cap 16 (pspDecompress ?L (take (unat (size_u32 ?d)) ?d) (size_u32 ?d) 16)"
    by (simp add: within_cap_def canned_def)
  have val: "fst (decompress ?L ?d 16 False fresh) = Return [1, 2, 3]"
    by (simp add: decompress_def canned_def sniff_def magic_sniff_def size_u32_def Let_def
        store_def py_bytes_def ret_def)
  show ?thesis
    using decompress_bounded_by_max_size [OF pos long cap, of False fresh] val by simp
qed

section \<open>Inputs shorter than the header\<close>

text \<open>The three IPL entry points: what they log, what they can raise, and when.\<close>

lemma decrypt_ipl1_events:
  "events (snd (decrypt_ipl1 L data verbose w)) =
     events w @ (if ipl1_kirk_initialized w then [] else [KirkInit])
       @ [Alloc (unat (size_u32 data)), DecryptIPL1 data (size_u32 data)]"
  by (simp add: decrypt_ipl1_def Let_def snd_ret events_emit events_py_print kirk_init_def
      emit_def split: prod.splits option.splits)

lemma decrypt_ipl1_raises:
  "fst (decrypt_ipl1 L data verbose w) = Raise e \<Longrightarrow> e = Ipl1Failed"
  by (auto simp: decrypt_ipl1_def Let_def fst_ret split: prod.splits option.splits if_splits)

lemma decrypt_ipl1_fails_iff:
  assumes "length (fst (snd (pspDecryptIPL1 L data (size_u32 data)))) \<le> unat (size_u32 data)"
  shows "(fst (decrypt_ipl1 L data verbose w) = Raise Ipl1Failed)
           = (sint (fst (pspDecryptIPL1 L data (size_u32 data))) \<le> 0)"
  using assms
  by (auto simp: decrypt_ipl1_def Let_def fst_ret store_def split: prod.splits option.splits)

lemma linearize_ipl2_events:
  "events (snd (linearize_ipl2 L data w)) =
     events w @ [Alloc (unat (size_u32 data)), LinearizeIPL2 data (size_u32 data)]"
  by (simp add: linearize_ipl2_def Let_def events_emit split: prod.splits option.splits)

lemma linearize_ipl2_raises:
  "fst (linearize_ipl2 L data w) = Raise e \<Longrightarrow> e = Ipl2Failed"
  by (auto simp: linearize_ipl2_def Let_def split: prod.splits option.splits if_splits)

lemma linearize_ipl2_fails_iff:
  assumes "length (fst (snd (pspLinearizeIPL2 L data (size_u32 data)))) \<le> unat (size_u32 data)"
  shows "(fst (linearize_ipl2 L data w) = Raise Ipl2Failed)
           = (sint (fst (pspLinearizeIPL2 L data (size_u32 data))) \<le> 0)"
  using assms
  by (auto simp: linearize_ipl2_def Let_def store_def split: prod.splits option.splits)

lemma decrypt_ipl3_events:
  "events (snd (decrypt_ipl3 L data w)) =
     events w @ [Alloc (unat (size_u32 data)), DecryptIPL3 data (size_u32 data)]"
  by (simp add: decrypt_ipl3_def Let_def snd_ret events_emit split: prod.splits option.splits)

lemma decrypt_ipl3_raises:
  "fst (decrypt_ipl3 L data w) = Raise e \<Longrightarrow> e = Ipl3Failed"
  by (auto simp: decrypt_ipl3_def Let_def fst_ret split: prod.splits option.splits if_splits)

lemma decrypt_ipl3_fails_iff:
  assumes "length (snd (pspDecryptIPL3 L data (size_u32 data))) \<le> unat (size_u32 data)"
  shows "(fst (decrypt_ipl3 L data w) = Raise Ipl3Failed)
           = (sint (fst (pspDecryptIPL3 L data (size_u32 data))) \<le> 0)"
  using assms
  by (auto simp: decrypt_ipl3_def Let_def fst_ret store_def split: prod.splits option.splits)

text \<open>\<open>decompress\<close> on an input that holds the four bytes the sniff looks at.\<close>

lemma decompress_raises:
  "fst (decompress L data max_size verbose w) = Raise e \<Longrightarrow>
     e = NotCompressed \<or> (\<exists>log_str. e = DecompressionFailed log_str)"
  by (auto simp: decompress_def Let_def fst_ret split: prod.splits option.splits if_splits)

lemma decompress_unrecognised:
  assumes "4 \<le> length (take (unat (size_u32 data)) data)"
    and "pspIsCompressed L (take (unat (size_u32 data)) data) = 0"
  shows "decompress L data max_size verbose w =
           (Raise NotCompressed,
            emit [Alloc (unat (size_u32 data)),
                  IsCompressed (take (unat (size_u32 data)) data)] w)"
  using assms by (simp add: decompress_def Let_def sniff_Some)

lemma decompress_recognised_events:
  assumes "4 \<le> length (take (unat (size_u32 data)) data)"
    and "pspIsCompressed L (take (unat (size_u32 data)) data) \<noteq> 0"
  shows "events (snd (decompress L data max_size verbose w)) =
           events w @ [Alloc (unat (size_u32 data)),
                       IsCompressed (take (unat (size_u32 data)) data),
                       Alloc (unat (if 0 < sint max_size then max_size else size_u32 data * 10)),
                       Decompress (take (unat (size_u32 data)) data) (size_u32 data)
                         (if 0 < sint max_size then max_size else size_u32 data * 10)]"
  using assms
  by (simp add: decompress_def Let_def sniff_Some snd_ret events_emit events_py_print
      split: prod.splits option.splits)

lemma decompress_fails_iff:
  assumes "4 \<le> length (take (unat (size_u32 data)) data)"
    and "pspIsCompressed L (take (unat (size_u32 data)) data) \<noteq> 0"
    and "length (fst (snd (snd (pspDecompress L (take (unat (size_u32 data)) data)
                                   (size_u32 data)
                                   (if 0 < sint max_size then max_size else size_u32 data * 10)))))
           \<le> unat (if 0 < sint max_size then max_size else size_u32 data * 10)"
  shows "(\<exists>log_str. fst (decompress L data max_size verbose w) = Raise (DecompressionFailed log_str))
           = (sint (fst (pspDecompress L (take (unat (size_u32 data)) data) (size_u32 data)
                           (if 0 < sint max_size then max_size else size_u32 data * 10))) < 0)"
  using assms
  by (auto simp: decompress_def Let_def sniff_Some fst_ret store_def
      split: prod.splits option.splits)

text \<open>
  C2, as amended. For an input shorter than 0x150 bytes:
  \<^item> \<open>decrypt_prx\<close> and \<open>get_prx_info\<close> raise "Input data is too small" without handing
    the input to any library routine: \<open>decrypt_prx\<close> has at most initialised the engine,
    \<open>get_prx_info\<close> leaves the world as it was;
  \<^item> the length handed on is the true length, and the copy \<open>decompress\<close> makes is the
    whole input;
  \<^item> \<open>decrypt_ipl1\<close>, \<open>linearize_ipl2\<close> and \<open>decrypt_ipl3\<close> call their library routine
    on the input with that length, raise nothing but their own error, and raise it exactly
    when the routine (having stayed inside the output buffer) reports a result of at
    most 0;
  \<^item> \<open>decompress\<close> raises nothing but "Input data is not compressed" or "Decompression
    failed"; on an input of at least four bytes it raises the first when the sniff does
    not recognise the input, and otherwise calls the decoder on the input with its true
    length and raises the second exactly when the decoder (having stayed inside the
    output buffer) reports a negative result.
\<close>

theorem short_input_entry_points:
  assumes short: "length data < 0x150"
  shows "fst (decrypt_prx L data secure_id_obj verbose w) = Raise TooSmall
       \<and> events (snd (decrypt_prx L data secure_id_obj verbose w)) =
           events w @ (if prx_kirk_initialized w then [] else [KirkInit])
       \<and> get_prx_info L data w = (Raise TooSmall, w)
       \<and> unat (size_u32 data) = length data
       \<and> take (unat (size_u32 data)) data = data
       \<and> events (snd (decrypt_ipl1 L data verbose w)) =
           events w @ (if ipl1_kirk_initialized w then [] else [KirkInit])
             @ [Alloc (length data), DecryptIPL1 data (size_u32 data)]
       \<and> (\<forall>e. fst (decrypt_ipl1 L data verbose w) = Raise e \<longrightarrow> e = Ipl1Failed)
       \<and> (length (fst (snd (pspDecryptIPL1 L data (size_u32 data)))) \<le> length data \<longrightarrow>
            (fst (decrypt_ipl1 L data verbose w) = Raise Ipl1Failed)
              = (sint (fst (pspDecryptIPL1 L data (size_u32 data))) \<le> 0))
       \<and> events (snd (linearize_ipl2 L data w)) =
           events w @ [Alloc (length data), LinearizeIPL2 data (size_u32 data)]
       \<and> (\<forall>e. fst (linearize_ipl2 L data w) = Raise e \<longrightarrow> e = Ipl2Failed)
       \<and> (length (fst (snd (pspLinearizeIPL2 L data (size_u32 data)))) \<le> length data \<longrightarrow>
            (fst (linearize_ipl2 L data w) = Raise Ipl2Failed)
              = (sint (fst (pspLinearizeIPL2 L data (size_u32 data))) \<le> 0))
       \<and> events (snd (decrypt_ipl3 L data w)) =
           events w @ [Alloc (length data), DecryptIPL3 data (size_u32 data)]
       \<and> (\<forall>e. fst (decrypt_ipl3 L data w) = Raise e \<longrightarrow> e = Ipl3Failed)
       \<and> (length (snd (pspDecryptIPL3 L data (size_u32 data))) \<le> length data \<longrightarrow>
            (fst (decrypt_ipl3 L data w) = Raise Ipl3Failed)
              = (sint (fst (pspDecryptIPL3 L data (size_u32 data))) \<le> 0))
       \<and> (\<forall>e. fst (decompress L data max_size verbose w) = Raise e \<longrightarrow>
              e = NotCompressed \<or> (\<exists>log_str. e = DecompressionFailed log_str))
       \<and> (4 \<le> length data \<and> pspIsCompressed L data = 0 \<longrightarrow>
            decompress L data max_size verbose w =
              (Raise NotCompressed, emit [Alloc (length data), IsCompressed data] w))
       \<and> (4 \<le> length data \<and> pspIsCompressed L data \<noteq> 0 \<longrightarrow>
            events (snd (decompress L data max_size verbose w)) =
              events w @ [Alloc (length data), IsCompressed data,
                          Alloc (unat (if 0 < sint max_size then max_size
                                       else size_u32 data * 10)),
                          Decompress data (size_u32 data)
                            (if 0 < sint max_size then max_size else size_u32 data * 10)])
       \<and> (4 \<le> length data \<and> pspIsCompressed L data \<noteq> 0
            \<and> length (fst (snd (snd (pspDecompress L data (size_u32 data)
                                        (if 0 < sint max_size then max_size
                                         else size_u32 data * 10)))))
                \<le> unat (if 0 < sint max_size then max_size else size_u32 data * 10) \<longrightarrow>
            (\<exists>log_str. fst (decompress L data max_size verbose w)
                          = Raise (DecompressionFailed log_str))
              = (sint (fst (pspDecompress L data (size_u32 data)
                              (if 0 < sint max_size then max_size
                               else size_u32 data * 10))) < 0))"
proof -
  from short have "length data < 2 ^ 32" by simp
  then have un: "unat (size_u32 data) = length data"
    by (rule size_u32_exact)
  then have tk: "take (unat (size_u32 data)) data = data"
    by simp
  have c1: "fst (decrypt_prx L data secure_id_obj verbose w) = Raise TooSmall"
    using short size_u32_small [of data] by (simp add: decrypt_prx_def Let_def)
  have c2: "events (snd (decrypt_prx L data secure_id_obj verbose w)) =
           events w @ (if prx_kirk_initialized w then [] else [KirkInit])"
    using short size_u32_small [of data]
    by (simp add: decrypt_prx_def Let_def kirk_init_def emit_def)
  have c3: "get_prx_info L data w = (Raise TooSmall, w)"
    using short by (simp add: get_prx_info_def PSP_HEADER_SIZE_def)
  note i1 = decrypt_ipl1_events [of L data verbose w, unfolded un]
    and i2 = decrypt_ipl1_raises [of L data verbose w]
    and i3 = decrypt_ipl1_fails_iff [of L data verbose w, unfolded un]
    and l1 = linearize_ipl2_events [of L data w, unfolded un]
    and l2 = linearize_ipl2_raises [of L data w]
    and l3 = linearize_ipl2_fails_iff [of L data w, unfolded un]
    and d1 = decrypt_ipl3_events [of L data w, unfolded un]
    and d2 = decrypt_ipl3_raises [of L data w]
    and d3 = decrypt_ipl3_fails_iff [of L data w, unfolded un]
    and z1 = decompress_raises [of L data max_size verbose w]
    and z2 = decompress_unrecognised [of data L max_size verbose w, unfolded tk, unfolded un]
    and z3 = decompress_recognised_events [of data L max_size verbose w, unfolded tk, unfolded un]
    and z4 = decompress_fails_iff [of data L max_size verbose w, unfolded tk]
  show ?thesis
    using c1 c2 c3 un tk i1 i2 i3 l1 l2 l3 d1 d2 d3 z1 z2 z3 z4
    by (intro conjI allI impI) (simp_all only:, blast+)
qed

theorem short_input_entry_points_witness:
  "fst (decrypt_prx (canned 0 0 (0, []) (0, [], [])) [1, 2, 3, 4, 5] None False fresh)
     = Raise TooSmall
   \<and> get_prx_info (canned 0 0 (0, []) (0, [], [])) [1, 2, 3, 4, 5] fresh = (Raise TooSmall, fresh)
   \<and> fst (decrypt_ipl1 (canned 0 0 (0, []) (0, [], [])) [1, 2, 3, 4, 5] False fresh)
       = Raise Ipl1Failed
   \<and> fst (linearize_ipl2 (canned 0 0 (0, []) (0, [], [])) [1, 2, 3, 4, 5] fresh)
       = Raise Ipl2Failed
   \<and> fst (decrypt_ipl3 (canned 0 0 (0, []) (0, [], [])) [1, 2, 3, 4, 5] fresh)
       = Raise Ipl3Failed
   \<and> decompress (canned 0 0 (0, []) (0, [], [])) [1, 2, 3, 4, 5] (-1) False fresh
       = (Raise NotCompressed, emit [Alloc 5, IsCompressed [1, 2, 3, 4, 5]] fresh)"
proof -
  let ?L = "canned 0 0 (0, []) (0, [], [])"
  let ?d = "[1, 2, 3, 4, 5 :: u8]"
  have h: "length ?d < 0x150" by simp
  have lib: "pspDecryptIPL1 ?L ?d (size_u32 ?d) = (0, [], [])"
    "pspLinearizeIPL2 ?L ?d (size_u32 ?d) = (0, [], 0)"
    "pspDecryptIPL3 ?L ?d (size_u32 ?d) = (0, [])"
    "pspIsCompressed ?L ?d = 0"
    by (simp_all add: canned_def magic_sniff_def)
  have five: "Suc (Suc (Suc (Suc (Suc 0)))) = 5" by simp
  show ?thesis
    using short_input_entry_points [OF h, of ?L None False fresh "-1"]
    by (simp add: lib five)
qed

text \<open>
  The claim as stated fails: on the empty input \<open>decrypt_ipl1\<close> raises "IPL stage 1
  decryption failed", and a five-byte GZIP-tagged input is decompressed by \<open>decompress\<close>
  instead of being rejected as too small.
\<close>

theorem short_input_other_entry_points_counterexample:
  "fst (decrypt_ipl1 (canned 0 0 (0, []) (3, [1, 2, 3], '',gzip'')) [] False fresh)
     = Raise Ipl1Failed
   \<and> fst (decompress (canned 0 0 (0, []) (3, [1, 2, 3], '',gzip'')) [0x1F, 0x8B, 8, 0, 0] 16
            False fresh) = Return [1, 2, 3]"
  by (simp add: decrypt_ipl1_def decompress_def canned_def sniff_def magic_sniff_def size_u32_def
      Let_def store_def py_bytes_def ret_def)

section \<open>Result of the PRX decryption routine\<close>

text \<open>
  C3, as amended. Past the header and secure-ID checks, and with a decryption routine
  that stayed inside the output buffer: a negative result makes \<open>decrypt_prx\<close> raise
  "PRX decryption failed"; a zero or positive result never raises it, and a zero result
  returns the empty byte string.
\<close>

theorem prx_negative_result_fails:
  assumes hdr: "PSP_HEADER_SIZE \<le> size_u32 data"
    and sid: "parse_secure_id secure_id_obj = Inr seed"
    and dec: "pspDecryptPRX L data (size_u32 data) seed verbose = (output_size, written)"
    and fit: "length written
                \<le> unat ((max (pspGetPspSize L data) (pspGetElfSize L data) + 15) div 16 * 16)"
  shows "(sint output_size < 0 \<longrightarrow>
            fst (decrypt_prx L data secure_id_obj verbose w) = Raise PrxDecryptionFailed)
       \<and> (0 \<le> sint output_size \<longrightarrow>
            fst (decrypt_prx L data secure_id_obj verbose w) \<noteq> Raise PrxDecryptionFailed)
       \<and> (output_size = 0 \<longrightarrow> fst (decrypt_prx L data secure_id_obj verbose w) = Return [])"
proof -
  from fit obtain buf where
    buf: "store (unat ((max (pspGetPspSize L data) (pspGetElfSize L data) + 15) div 16 * 16))
            written = Some buf"
    by (simp add: store_def)
  note unf = decrypt_prx_unfold [OF hdr sid dec buf, of w]
  have neg: "sint output_size < 0 \<longrightarrow>
            fst (decrypt_prx L data secure_id_obj verbose w) = Raise PrxDecryptionFailed"
    by (simp add: unf Let_def)
  have pos: "0 \<le> sint output_size \<longrightarrow>
            fst (decrypt_prx L data secure_id_obj verbose w) \<noteq> Raise PrxDecryptionFailed"
    by (simp add: unf Let_def prx_finish_not_failed)
  have zero: "output_size = 0 \<longrightarrow> fst (decrypt_prx L data secure_id_obj verbose w) = Return []"
    by (simp add: unf Let_def prx_finish_def fst_ret py_bytes_def)
  from neg pos zero show ?thesis by blast
qed

theorem prx_negative_result_fails_witness:
  "fst (decrypt_prx (canned 0 0 (-1, []) (0, [], [])) (replicate 336 0) None False fresh)
     = Raise PrxDecryptionFailed"
proof -
  let ?L = "canned 0 0 (-1, []) (0, [], [])"
  let ?d = "replicate 336 (0 :: u8)"
  have hdr: "PSP_HEADER_SIZE \<le> size_u32 ?d"
    by (simp add: PSP_HEADER_SIZE_def size_u32_def)
  have sid: "parse_secure_id None = Inr None"
    by (simp add: parse_secure_id_def)
  have dec: "pspDecryptPRX ?L ?d (size_u32 ?d) None False = (-1, [])"
    by (simp add: canned_def)
  have fit: "length ([] :: bytes)
               \<le> unat ((max (pspGetPspSize ?L ?d) (pspGetElfSize ?L ?d) + 15) div 16 * 16)"
    by simp
  show ?thesis
    using prx_negative_result_fails [OF hdr sid dec fit, of fresh] by simp
qed

text \<open>
  The claim as stated fails for a zero result: the test is \<^verbatim>\<open>output_size < 0\<close>, so the
  call returns an empty byte string.
\<close>

theorem prx_zero_result_counterexample:
  "fst (decrypt_prx (canned 0 0 (0, []) (0, [], [])) (replicate 336 0) None False fresh)
     = Return []"
  by (simp add: decrypt_prx_def canned_def size_u32_def PSP_HEADER_SIZE_def parse_secure_id_def
      Let_def store_def prx_finish_def fst_ret py_bytes_def)

section \<open>Decompression inside decrypt\_prx\<close>

text \<open>
  What the decompression step does for a decoder that leaves its input alone and, when
  \<open>verbose\<close> is set, gives a log text: the decoder is called with capacity \<open>elf_size\<close> on a
  buffer of \<open>elf_size\<close> bytes; a result different from \<open>elf_size\<close> returns the \<open>n\<close>
  decrypted bytes, a result equal to \<open>elf_size\<close> returns the decompressed buffer.
\<close>

lemma prx_decompression_result:
  assumes hdr: "PSP_HEADER_SIZE \<le> size_u32 data"
    and sid: "parse_secure_id secure_id_obj = Inr seed"
    and dec: "pspDecryptPRX L data (size_u32 data) seed verbose = (n, written)"
    and buf: "store (unat ((max (pspGetPspSize L data) (pspGetElfSize L data) + 15) div 16 * 16))
                written = Some buf"
    and big: "4 \<le> sint n" and inb: "nat (sint n) \<le> length buf"
    and sniff: "pspIsCompressed L buf \<noteq> 0"
    and dcm: "pspDecompress L buf n (pspGetElfSize L data) = (m, buf, written2, log_str)"
    and fit2: "store (unat (pspGetElfSize L data)) written2 = Some temp"
    and log: "verbose \<longrightarrow> log_str \<noteq> []"
  shows "Decompress buf n (pspGetElfSize L data)
           \<in> set (events (snd (decrypt_prx L data secure_id_obj verbose w)))
       \<and> length temp = unat (pspGetElfSize L data)
       \<and> (m \<noteq> pspGetElfSize L data \<longrightarrow>
            fst (decrypt_prx L data secure_id_obj verbose w) = Return (take (nat (sint n)) buf))
       \<and> (m = pspGetElfSize L data \<and> 0 \<le> sint m \<longrightarrow>
            fst (decrypt_prx L data secure_id_obj verbose w) = Return temp)"
proof -
  from big have nonneg: "\<not> sint n < 0" by simp
  note unf = decrypt_prx_unfold [OF hdr sid dec buf, of w]
  note fin = prx_finish_decompressing [OF big inb sniff dcm fit2 log]
  have ev: "Decompress buf n (pspGetElfSize L data)
           \<in> set (events (snd (decrypt_prx L data secure_id_obj verbose w)))"
    using nonneg by (simp add: unf Let_def fin(2))
  have len: "length temp = unat (pspGetElfSize L data)"
    using fit2 by (rule length_store)
  have res: "fst (decrypt_prx L data secure_id_obj verbose w) =
           (if m = pspGetElfSize L data then (if 0 \<le> sint m then Return temp else Fault)
            else Return (take (nat (sint n)) buf))"
    using nonneg by (simp add: unf Let_def fin(1))
  from ev len res show ?thesis by simp
qed

text \<open>
  C4. The claim says that a decompressed length different from \<open>elf_size\<close> never makes
  \<open>decrypt_prx\<close> fail. The mismatch branch (line 85) prints \<^verbatim>\<open>log_str.substr(1)\<close>
  without the emptiness test that \<open>decrypt_ipl1\<close> and \<open>decompress\<close> make: when the decoder
  reports a failure and leaves the log empty, the verbose call raises
  \<^verbatim>\<open>std::out_of_range\<close>, where the quiet call returns the five decrypted bytes.
\<close>

theorem prx_mismatch_verbose_empty_log_raises:
  "fst (decrypt_prx (canned 32 64 (5, [0x1F, 0x8B, 0, 0, 0]) (-1, [], []))
          (replicate 336 0) None True fresh) = Raise SubstrOutOfRange
   \<and> fst (decrypt_prx (canned 32 64 (5, [0x1F, 0x8B, 0, 0, 0]) (-1, [], []))
          (replicate 336 0) None False fresh) = Return [0x1F, 0x8B, 0, 0, 0]"
  by (simp add: decrypt_prx_def canned_def size_u32_def PSP_HEADER_SIZE_def parse_secure_id_def
      Let_def store_def prx_finish_def sniff_def magic_sniff_def substr1_def fst_ret
      py_bytes_def emit_def)

section \<open>Verbosity\<close>

text \<open>
  \<open>decrypt_ipl1\<close> and \<open>decompress\<close> use \<open>verbose\<close> only to guard a print, behind a
  test that the log is not empty: their result never depends on the flag.
\<close>

lemma verbose_only_prints:
  "fst (decrypt_ipl1 L data True w) = fst (decrypt_ipl1 L data False w)
   \<and> fst (decompress L data max_size True w) = fst (decompress L data max_size False w)"
  by (simp add: decrypt_ipl1_def decompress_def Let_def fst_ret
      split: prod.splits option.splits)

text \<open>
  \<open>decrypt_prx\<close> passes the flag on to \<open>pspDecryptPRX\<close>. Its result is the same with
  the flag set and unset when that routine's result does not depend on the flag and the
  decoder's log text is never empty.
\<close>

lemma decrypt_prx_verbose_with_log:
  assumes flag: "\<forall>seed. pspDecryptPRX L data (size_u32 data) seed True
                         = pspDecryptPRX L data (size_u32 data) seed False"
    and logs: "\<forall>inbuf n cap. snd (snd (snd (pspDecompress L inbuf n cap))) \<noteq> []"
  shows "fst (decrypt_prx L data secure_id_obj True w)
           = fst (decrypt_prx L data secure_id_obj False w)"
proof (cases "parse_secure_id secure_id_obj")
  case (Inl e)
  then show ?thesis by (simp add: decrypt_prx_def Let_def)
next
  case (Inr seed)
  from flag have "pspDecryptPRX L data (size_u32 data) seed True
                   = pspDecryptPRX L data (size_u32 data) seed False" by blast
  with Inr show ?thesis
    by (simp add: decrypt_prx_def Let_def prx_finish_verbose [OF logs]
        split: prod.splits option.splits)
qed

text \<open>
  C8. The claim says that \<open>verbose\<close> never changes the result. In \<open>decrypt_prx\<close> the
  verbose branches (lines 82 and 85) print \<^verbatim>\<open>log_str.substr(1)\<close> without the emptiness
  test of the two sibling entry points: when the decoder succeeds with exactly
  \<open>elf_size\<close> bytes and leaves the log empty, the verbose call raises
  \<^verbatim>\<open>std::out_of_range\<close>, where the quiet call returns the 64 decompressed bytes.
\<close>

theorem verbose_changes_decrypt_prx_result:
  "fst (decrypt_prx (canned 32 64 (5, [0x1F, 0x8B, 0, 0, 0]) (64, replicate 64 7, []))
          (replicate 336 0) None True fresh) = Raise SubstrOutOfRange
   \<and> fst (decrypt_prx (canned 32 64 (5, [0x1F, 0x8B, 0, 0, 0]) (64, replicate 64 7, []))
          (replicate 336 0) None False fresh) = Return (replicate 64 7)"
  by (simp add: decrypt_prx_def canned_def size_u32_def PSP_HEADER_SIZE_def parse_secure_id_def
      Let_def store_def prx_finish_def sniff_def magic_sniff_def substr1_def fst_ret
      py_bytes_def emit_def)

section \<open>Unrecognised input of decompress\<close>

text \<open>
  C9. The claim says that every input the sniff does not recognise makes \<open>decompress\<close>
  fail with an error. The sniff is applied to the copy of the input with no test of its
  length (line 218; the sniff in \<open>decrypt_prx\<close>, line 72, is guarded by
  \<^verbatim>\<open>output_size >= 4\<close>): on the empty input it is handed the \<^verbatim>\<open>data()\<close> of an empty
  vector, and the call is a \<open>Fault\<close>, not a raised error, for every library.
\<close>

theorem decompress_empty_input_faults:
  "fst (decompress L [] max_size verbose w) = Fault"
  by (simp add: decompress_def Let_def sniff_def size_u32_def)

section \<open>get\_prx\_info\<close>

text \<open>
  C5. On an input of at least 0x150 bytes \<open>get_prx_info\<close> always succeeds with the five
  header fields. Its only effects are the four header reads and the sniff: no engine
  initialisation, no decryption, no allocation of any output buffer, nothing printed, and
  the input (an immutable value, read through a const pointer) is not changed. The result
  does not depend on the world, so a second call on the same bytes gives the same result.
\<close>

theorem get_prx_info_pure:
  assumes "0x150 \<le> length data"
  shows "get_prx_info L data w =
           (Return \<lparr>info_tag = pspGetTagVal L data,
                    info_elf_size = pspGetElfSize L data,
                    info_psp_size = pspGetPspSize L data,
                    info_comp_size = pspGetCompSize L data,
                    info_is_compressed = (pspIsCompressed L data \<noteq> 0)\<rparr>,
            emit [GetTagVal data, GetElfSize data, GetPspSize data, GetCompSize data,
                  IsCompressed data] w)
       \<and> fst (get_prx_info L data (snd (get_prx_info L data w))) = fst (get_prx_info L data w)
       \<and> fst (get_prx_info L data w') = fst (get_prx_info L data w)"
  using assms by (simp add: get_prx_info_def PSP_HEADER_SIZE_def)

theorem get_prx_info_pure_witness:
  "get_prx_info (canned 32 64 (0, []) (0, [], [])) (replicate 336 0) fresh =
     (Return \<lparr>info_tag = 0, info_elf_size = 64, info_psp_size = 32, info_comp_size = 0,
              info_is_compressed = False\<rparr>,
      emit [GetTagVal (replicate 336 0), GetElfSize (replicate 336 0),
            GetPspSize (replicate 336 0), GetCompSize (replicate 336 0),
            IsCompressed (replicate 336 0)] fresh)"
proof -
  have h: "0x150 \<le> length (replicate 336 (0 :: u8))" by simp
  have vals: "pspGetTagVal (canned 32 64 (0, []) (0, [], [])) (replicate 336 0) = 0"
    "pspGetElfSize (canned 32 64 (0, []) (0, [], [])) (replicate 336 0) = 64"
    "pspGetPspSize (canned 32 64 (0, []) (0, [], [])) (replicate 336 0) = 32"
    "pspGetCompSize (canned 32 64 (0, []) (0, [], [])) (replicate 336 0) = 0"
    "pspIsCompressed (canned 32 64 (0, []) (0, [], [])) (replicate 336 0) = 0"
    by (simp_all add: canned_def magic_sniff_def replicate_2_4)
  show ?thesis
    using get_prx_info_pure [OF h, of "canned 32 64 (0, []) (0, [], [])" fresh fresh]
    by (simp add: vals)
qed

section \<open>Secure ID\<close>

text \<open>The decompression step raises nothing but the \<^verbatim>\<open>substr\<close> error.\<close>

lemma prx_finish_raises:
  "fst (prx_finish L verbose elf_size buf n w) = Raise e \<Longrightarrow> e = SubstrOutOfRange"
  by (auto simp: prx_finish_def Let_def fst_ret split: prod.splits option.splits if_splits)

text \<open>
  C6. A secure ID whose length is not 16 makes \<open>decrypt_prx\<close> raise (the input is too
  small, or "Secure ID must be exactly 16 bytes") before any library routine has seen the
  input: the only possible effect is the engine initialisation. A 16-byte secure ID on an
  input that passes the size check is accepted (the secure-ID error is not raised) and is
  the seed of the one \<open>pspDecryptPRX\<close> call, whose answer decides the result: if the
  routine stayed inside the output buffer, a negative answer raises "PRX decryption
  failed" and any other answer goes, with the bytes the routine stored, into the
  decompression step; if the routine went past the buffer, the call is a \<open>Fault\<close>.
\<close>

theorem secure_id_length_checked:
  "(length sid \<noteq> 16 \<longrightarrow>
      (fst (decrypt_prx L data (Some sid) verbose w) = Raise TooSmall
       \<or> fst (decrypt_prx L data (Some sid) verbose w) = Raise SecureIdLength)
      \<and> events (snd (decrypt_prx L data (Some sid) verbose w)) =
          events w @ (if prx_kirk_initialized w then [] else [KirkInit]))
   \<and> (length sid = 16 \<and> PSP_HEADER_SIZE \<le> size_u32 data \<longrightarrow>
        DecryptPRX data (size_u32 data) (Some sid) verbose
          \<in> set (events (snd (decrypt_prx L data (Some sid) verbose w)))
      \<and> fst (decrypt_prx L data (Some sid) verbose w) \<noteq> Raise SecureIdLength
      \<and> (length (snd (pspDecryptPRX L data (size_u32 data) (Some sid) verbose))
            \<le> unat ((max (pspGetPspSize L data) (pspGetElfSize L data) + 15) div 16 * 16) \<longrightarrow>
          decrypt_prx L data (Some sid) verbose w =
            (if sint (fst (pspDecryptPRX L data (size_u32 data) (Some sid) verbose)) < 0
             then (Raise PrxDecryptionFailed,
                   emit [GetPspSize data, GetElfSize data,
                         Alloc (unat ((max (pspGetPspSize L data) (pspGetElfSize L data) + 15)
                                        div 16 * 16)),
                         DecryptPRX data (size_u32 data) (Some sid) verbose]
                     (if prx_kirk_initialized w then w
                      else (kirk_init w)\<lparr>prx_kirk_initialized := True\<rparr>))
             else prx_finish L verbose (pspGetElfSize L data)
                    (snd (pspDecryptPRX L data (size_u32 data) (Some sid) verbose)
                       @ replicate
                           (unat ((max (pspGetPspSize L data) (pspGetElfSize L data) + 15)
                                    div 16 * 16)
                            - length (snd (pspDecryptPRX L data (size_u32 data) (Some sid)
                                             verbose))) 0)
                    (fst (pspDecryptPRX L data (size_u32 data) (Some sid) verbose))
                    (emit [GetPspSize data, GetElfSize data,
                           Alloc (unat ((max (pspGetPspSize L data) (pspGetElfSize L data) + 15)
                                          div 16 * 16)),
                           DecryptPRX data (size_u32 data) (Some sid) verbose]
                       (if prx_kirk_initialized w then w
                        else (kirk_init w)\<lparr>prx_kirk_initialized := True\<rparr>))))
      \<and> (unat ((max (pspGetPspSize L data) (pspGetElfSize L data) + 15) div 16 * 16)
            < length (snd (pspDecryptPRX L data (size_u32 data) (Some sid) verbose)) \<longrightarrow>
          fst (decrypt_prx L data (Some sid) verbose w) = Fault))"
proof (intro conjI impI)
  assume bad: "length sid \<noteq> 16"
  then show "fst (decrypt_prx L data (Some sid) verbose w) = Raise TooSmall
       \<or> fst (decrypt_prx L data (Some sid) verbose w) = Raise SecureIdLength"
    by (simp add: decrypt_prx_def Let_def parse_secure_id_def)
  from bad show "events (snd (decrypt_prx L data (Some sid) verbose w)) =
          events w @ (if prx_kirk_initialized w then [] else [KirkInit])"
    by (simp add: decrypt_prx_def Let_def parse_secure_id_def kirk_init_def emit_def)
next
  let ?cap = "unat ((max (pspGetPspSize L data) (pspGetElfSize L data) + 15) div 16 * 16)"
  let ?w2 = "emit [GetPspSize data, GetElfSize data, Alloc ?cap,
                   DecryptPRX data (size_u32 data) (Some sid) verbose]
              (if prx_kirk_initialized w then w
               else (kirk_init w)\<lparr>prx_kirk_initialized := True\<rparr>)"
  assume ok: "length sid = 16 \<and> PSP_HEADER_SIZE \<le> size_u32 data"
  then have hdr: "PSP_HEADER_SIZE \<le> size_u32 data"
    and sid: "parse_secure_id (Some sid) = Inr (Some sid)"
    by (simp_all add: parse_secure_id_def)
  obtain n written where
    dec: "pspDecryptPRX L data (size_u32 data) (Some sid) verbose = (n, written)"
    by (cases "pspDecryptPRX L data (size_u32 data) (Some sid) verbose")
  have over: "?cap < length written \<Longrightarrow> decrypt_prx L data (Some sid) verbose w = (Fault, ?w2)"
    using hdr sid dec
    by (simp add: decrypt_prx_def Let_def store_def not_less [symmetric])
  have fits: "length written \<le> ?cap \<Longrightarrow> decrypt_prx L data (Some sid) verbose w =
      (if sint n < 0 then (Raise PrxDecryptionFailed, ?w2)
       else prx_finish L verbose (pspGetElfSize L data)
              (written @ replicate (?cap - length written) 0) n ?w2)"
  proof -
    assume "length written \<le> ?cap"
    then have "store ?cap written = Some (written @ replicate (?cap - length written) 0)"
      by (simp add: store_def)
    from decrypt_prx_unfold [OF hdr sid dec this, of w] show ?thesis
      by (simp add: Let_def)
  qed
  show "DecryptPRX data (size_u32 data) (Some sid) verbose
          \<in> set (events (snd (decrypt_prx L data (Some sid) verbose w)))"
  proof (cases "length written \<le> ?cap")
    case False
    then show ?thesis using over by (simp add: events_emit)
  next
    case True
    from events_prx_finish
      [of L verbose "pspGetElfSize L data" "written @ replicate (?cap - length written) 0" n ?w2]
    obtain es where "events (snd (prx_finish L verbose (pspGetElfSize L data)
        (written @ replicate (?cap - length written) 0) n ?w2)) = events ?w2 @ es"
      by blast
    with fits [OF True] show ?thesis by (simp add: events_emit)
  qed
  show "fst (decrypt_prx L data (Some sid) verbose w) \<noteq> Raise SecureIdLength"
  proof (cases "length written \<le> ?cap")
    case False
    then show ?thesis using over by simp
  next
    case True
    with fits [OF True] prx_finish_raises
      [of L verbose "pspGetElfSize L data" "written @ replicate (?cap - length written) 0" n ?w2
          SecureIdLength]
    show ?thesis by (auto split: if_splits)
  qed
  show "decrypt_prx L data (Some sid) verbose w =
            (if sint (fst (pspDecryptPRX L data (size_u32 data) (Some sid) verbose)) < 0
             then (Raise PrxDecryptionFailed, ?w2)
             else prx_finish L verbose (pspGetElfSize L data)
                    (snd (pspDecryptPRX L data (size_u32 data) (Some sid) verbose)
                       @ replicate
                           (?cap - length (snd (pspDecryptPRX L data (size_u32 data) (Some sid)
                                                  verbose))) 0)
                    (fst (pspDecryptPRX L data (size_u32 data) (Some sid) verbose)) ?w2)"
    if "length (snd (pspDecryptPRX L data (size_u32 data) (Some sid) verbose)) \<le> ?cap"
    using that fits by (simp add: dec)
  show "fst (decrypt_prx L data (Some sid) verbose w) = Fault"
    if "?cap < length (snd (pspDecryptPRX L data (size_u32 data) (Some sid) verbose))"
    using that over by (simp add: dec)
qed

theorem secure_id_length_checked_witness:
  "events (snd (decrypt_prx
      ((canned 32 64 (0, []) (0, [], []))
         \<lparr>pspDecryptPRX := (\<lambda>inbuf size seed verbose.
              case seed of None \<Rightarrow> (-1, []) | Some s \<Rightarrow> (of_nat (length s), s))\<rparr>)
      (replicate 336 0) (Some [1, 2, 3]) False fresh)) = [KirkInit]
   \<and> fst (decrypt_prx
      ((canned 32 64 (0, []) (0, [], []))
         \<lparr>pspDecryptPRX := (\<lambda>inbuf size seed verbose.
              case seed of None \<Rightarrow> (-1, []) | Some s \<Rightarrow> (of_nat (length s), s))\<rparr>)
      (replicate 336 0) (Some (replicate 16 7)) False fresh) = Return (replicate 16 7)"
proof -
  let ?L = "(canned 32 64 (0, []) (0, [], []))
         \<lparr>pspDecryptPRX := (\<lambda>inbuf size seed verbose.
              case seed of None \<Rightarrow> (-1, []) | Some s \<Rightarrow> (of_nat (length s), s))\<rparr>"
  let ?d = "replicate 336 (0 :: u8)"
  let ?sid = "replicate 16 (7 :: u8)"
  have hdr: "PSP_HEADER_SIZE \<le> size_u32 ?d"
    by (simp add: PSP_HEADER_SIZE_def size_u32_def)
  have dec: "pspDecryptPRX ?L ?d (size_u32 ?d) (Some ?sid) False = (16, ?sid)"
    by (simp add: canned_def)
  have cap: "pspGetPspSize (canned 32 64 (0, []) (0, [], [])) ?d = 32"
    by (simp add: canned_def)
  have elf: "pspGetElfSize (canned 32 64 (0, []) (0, [], [])) ?d = 64"
    by (simp add: canned_def)
  have sn: "pspIsCompressed (canned 32 64 (0, []) (0, [], [])) (?sid @ replicate 48 0) = 0"
    by (simp add: canned_def magic_sniff_def replicate_2_4)
  have fin: "fst (prx_finish ?L False 64 (?sid @ replicate 48 0) 16 w) = Return ?sid" for w
    by (simp add: prx_finish_def Let_def sniff_def sn fst_ret py_bytes_def)
  have short: "events (snd (decrypt_prx ?L ?d (Some [1, 2, 3]) False fresh)) = [KirkInit]"
    using secure_id_length_checked [of "[1, 2, 3]" ?L ?d False fresh]
    by (simp add: fresh_def)
  have long: "fst (decrypt_prx ?L ?d (Some ?sid) False fresh) = Return ?sid"
    using secure_id_length_checked [of ?sid ?L ?d False fresh] hdr
    by (simp add: dec cap elf fin)
  from short long show ?thesis by simp
qed

section \<open>Engine initialisation over a sequence of calls\<close>

lemma engine_emit: "KirkInit \<notin> set es \<Longrightarrow> engine (emit es w) = engine w"
  by (induction es) (auto simp: engine_def emit_def loads_def)

lemma engine_py_print: "engine (py_print l w) = engine w"
  by (simp add: engine_def py_print_def loads_def)

lemma engine_kirk_init_prx:
  "engine ((kirk_init w)\<lparr>prx_kirk_initialized := True\<rparr>)
     = (True, ipl1_kirk_initialized w, Suc (loads w))"
  by (simp add: engine_def kirk_init_def emit_def loads_def)

lemma engine_kirk_init_ipl1:
  "engine ((kirk_init w)\<lparr>ipl1_kirk_initialized := True\<rparr>)
     = (prx_kirk_initialized w, True, Suc (loads w))"
  by (simp add: engine_def kirk_init_def emit_def loads_def)

lemma engine_prx_finish: "engine (snd (prx_finish L verbose elf_size buf n w)) = engine w"
  by (simp add: prx_finish_def Let_def snd_ret engine_emit engine_py_print
      split: prod.splits option.splits)

lemma engine_decrypt_prx:
  "engine (snd (decrypt_prx L data sid verbose w))
     = (True, ipl1_kirk_initialized w, loads w + (if prx_kirk_initialized w then 0 else 1))"
  by (auto simp: decrypt_prx_def Let_def engine_prx_finish engine_emit engine_kirk_init_prx
      engine_def [of w] split: prod.splits option.splits sum.splits)

lemma engine_decrypt_ipl1:
  "engine (snd (decrypt_ipl1 L data verbose w))
     = (prx_kirk_initialized w, True, loads w + (if ipl1_kirk_initialized w then 0 else 1))"
  by (auto simp: decrypt_ipl1_def Let_def snd_ret engine_emit engine_py_print
      engine_kirk_init_ipl1 engine_def [of w] split: prod.splits option.splits)

lemma engine_get_prx_info: "engine (snd (get_prx_info L data w)) = engine w"
  by (simp add: get_prx_info_def engine_emit)

lemma engine_linearize_ipl2: "engine (snd (linearize_ipl2 L data w)) = engine w"
  by (simp add: linearize_ipl2_def Let_def engine_emit split: prod.splits option.splits)

lemma engine_decrypt_ipl3: "engine (snd (decrypt_ipl3 L data w)) = engine w"
  by (simp add: decrypt_ipl3_def Let_def snd_ret engine_emit split: prod.splits option.splits)

lemma engine_decompress: "engine (snd (decompress L data max_size verbose w)) = engine w"
  by (simp add: decompress_def Let_def snd_ret engine_emit engine_py_print
      split: prod.splits option.splits)

text \<open>
  One call: \<open>decrypt_prx\<close> sets its guard and loads if the guard was unset,
  \<open>decrypt_ipl1\<close> does the same with its own guard, the other entry points touch
  neither guard and never load.
\<close>

lemma engine_step:
  "engine (step L c w) =
     (prx_kirk_initialized w \<or> is_prx_call c, ipl1_kirk_initialized w \<or> is_ipl1_call c,
      loads w + (if is_prx_call c \<and> \<not> prx_kirk_initialized w then 1 else 0)
              + (if is_ipl1_call c \<and> \<not> ipl1_kirk_initialized w then 1 else 0))"
  by (cases c)
     (auto simp: engine_decrypt_prx engine_decrypt_ipl1 engine_get_prx_info
        engine_linearize_ipl2 engine_decrypt_ipl3 engine_decompress engine_def [of w])

lemma loads_run:
  "loads (run L cs w) =
     loads w + (if list_ex is_prx_call cs \<and> \<not> prx_kirk_initialized w then 1 else 0)
             + (if list_ex is_ipl1_call cs \<and> \<not> ipl1_kirk_initialized w then 1 else 0)"
proof (induction cs arbitrary: w)
  case Nil
  show ?case by simp
next
  case (Cons c cs)
  have e: "prx_kirk_initialized (step L c w) = (prx_kirk_initialized w \<or> is_prx_call c)"
    "ipl1_kirk_initialized (step L c w) = (ipl1_kirk_initialized w \<or> is_ipl1_call c)"
    "loads (step L c w) =
       loads w + (if is_prx_call c \<and> \<not> prx_kirk_initialized w then 1 else 0)
               + (if is_ipl1_call c \<and> \<not> ipl1_kirk_initialized w then 1 else 0)"
    using engine_step [of L c w] by (simp_all add: engine_def)
  show ?case
    by (simp add: Cons.IH e)
qed

lemma fresh_engine:
  "loads fresh = 0" "\<not> prx_kirk_initialized fresh" "\<not> ipl1_kirk_initialized fresh"
  by (simp_all add: fresh_def loads_def)

text \<open>
  C7. The claim says that the engine is initialised once, by the first top-level call,
  whatever the entry points. The guard is a function-local \<^verbatim>\<open>static bool\<close> in
  \<open>decrypt_prx\<close> and a second, independent one in \<open>decrypt_ipl1\<close>: in a fresh module,
  \<open>decrypt_prx\<close> followed by \<open>decrypt_ipl1\<close> runs \<^verbatim>\<open>kirk_init()\<close> twice, for every
  library and all arguments. And a first call to \<open>decrypt_ipl3\<close>, a decryption like
  \<open>decrypt_ipl1\<close>, performs no load at all.
\<close>

theorem kirk_init_runs_twice:
  "loads (run L [CallDecryptPrx data1 secure_id_obj verbose1, CallDecryptIpl1 data2 verbose2]
            fresh) = 2
   \<and> loads (run L [CallDecryptIpl3 data3] fresh) = 0"
  by (simp del: run.simps add: loads_run fresh_engine)

section \<open>Default capacity of decompress\<close>

text \<open>Without a positive \<open>max_size\<close> the decoder is given the \<^verbatim>\<open>u32\<close> product.\<close>

lemma decompress_default_capacity:
  assumes "sint max_size \<le> 0"
    and "4 \<le> length (take (unat (size_u32 data)) data)"
    and "pspIsCompressed L (take (unat (size_u32 data)) data) \<noteq> 0"
  shows "Decompress (take (unat (size_u32 data)) data) (size_u32 data) (size_u32 data * 10)
           \<in> set (events (snd (decompress L data max_size verbose w)))"
  using assms
  by (simp add: decompress_def Let_def sniff_Some snd_ret events_emit events_py_print
      not_less [symmetric] split: prod.splits option.splits)

text \<open>As long as ten times the length fits into 32 bits, that is the capacity.\<close>

lemma decompress_default_capacity_in_range:
  assumes neg: "sint max_size \<le> 0"
    and long: "4 \<le> length data"
    and small: "10 * length data < 2 ^ 32"
    and sniff: "pspIsCompressed L data \<noteq> 0"
  shows "\<exists>cap. Decompress data (size_u32 data) cap
                 \<in> set (events (snd (decompress L data max_size verbose w)))
               \<and> unat cap = 10 * length data"
proof -
  from small have len: "length data < 2 ^ 32" by simp
  then have un: "unat (size_u32 data) = length data"
    by (rule size_u32_exact)
  then have tk: "take (unat (size_u32 data)) data = data" by simp
  have c1: "unat (of_nat (10 * length data) :: u32) = 10 * length data"
    using small by (simp only: unat_of_nat) simp
  have c2: "size_u32 data * 10 = (of_nat (10 * length data) :: u32)"
    by (simp add: size_u32_def)
  have cap: "unat (size_u32 data * 10) = 10 * length data"
    by (simp only: c2 c1)
  from decompress_default_capacity [of max_size data L verbose w] neg long sniff tk
  have "Decompress data (size_u32 data) (size_u32 data * 10)
          \<in> set (events (snd (decompress L data max_size verbose w)))"
    by simp
  with cap show ?thesis by blast
qed

text \<open>
  C10. The claim says that without a positive \<open>max_size\<close> the capacity is exactly ten
  times the input length. The product is computed in 32 bits: for a GZIP-tagged input of
  429496730 bytes, ten times the length is \<open>2^32 + 4\<close>, and the decoder is given a
  capacity of 4 bytes.
\<close>

theorem decompress_default_capacity_wraps:
  "Decompress (0x1F # 0x8B # replicate 429496728 0) 429496730 4
     \<in> set (events (snd (decompress (canned 0 0 (0, []) (4, [1, 2, 3, 4], '',gzip''))
                            (0x1F # 0x8B # replicate 429496728 0) (-1) False fresh)))"
proof -
  let ?d = "0x1F # 0x8B # replicate 429496728 (0 :: u8)"
  let ?L = "canned 0 0 (0, []) (4, [1, 2, 3, 4], '',gzip'')"
  have sz: "size_u32 ?d = 429496730"
    by (simp add: size_u32_def)
  have tk: "take (unat (size_u32 ?d)) ?d = ?d"
    by (simp add: sz)
  have long: "4 \<le> length (take (unat (size_u32 ?d)) ?d)"
    by (simp add: tk)
  have sn: "pspIsCompressed ?L (take (unat (size_u32 ?d)) ?d) \<noteq> 0"
    by (simp add: tk canned_def magic_sniff_def)
  have neg: "sint (-1 :: cint) \<le> 0" by simp
  have wrap: "(429496730 :: u32) * 10 = 4"
    by simp
  from decompress_default_capacity [OF neg long sn, of False fresh]
  have "Decompress ?d (size_u32 ?d) (size_u32 ?d * 10)
          \<in> set (events (snd (decompress ?L ?d (-1) False fresh)))"
    by (simp only: tk)
  then show ?thesis by (simp only: wrap sz)
qed

end
